theory Spec2Isabelle
  imports Complex_Main
begin

section \<open>Values of type double\<close>

text \<open>
  \<^verbatim>\<open>using state_t = std::vector<double>;\<close>

  A double is modelled by what it denotes: a finite number through its exact value
  (\<open>Number 0\<close> is \<open>+0.0\<close>), the negative zero, the two infinities, or a NaN (payloads are
  not distinguished). The rounded arithmetic of the machine is not part of the repository
  and is a parameter of the evaluator (record \<open>target\<close> below); only the two operations
  that are exact on every machine are defined here: the sign flip of unary minus and the
  comparison \<open>==\<close>.
\<close>

datatype double = Number rat | NegZero | PosInf | NegInf | NaN

type_synonym state_t = "double list"

fun fneg :: "double \<Rightarrow> double" where
  "fneg (Number q) = (if q = 0 then NegZero else Number (- q))"
| "fneg NegZero = Number 0"
| "fneg PosInf = NegInf"
| "fneg NegInf = PosInf"
| "fneg NaN = NaN"

fun unsigned_zero :: "double \<Rightarrow> double" where
  "unsigned_zero NegZero = Number 0"
| "unsigned_zero d = d"

definition feq :: "double \<Rightarrow> double \<Rightarrow> bool" where
  \<comment> \<open>\<open>a == b\<close> on doubles: a NaN equals nothing, the two zeros are equal.\<close>
  "feq a b \<longleftrightarrow> a \<noteq> NaN \<and> b \<noteq> NaN \<and> unsigned_zero a = unsigned_zero b"

section \<open>Expression nodes\<close>

datatype operation_t = assign_op | plus_op | minus_op | mul_op | div_op

text \<open>
  \<open>variable_t\<close> is both the handle minted by the symbol table and a node; the other node
  templates \<open>unary_t<T>\<close>, \<open>binary_t<First, Second>\<close>, \<open>assign_t<Second>\<close> and \<open>constant_t\<close>
  are the remaining constructors. The first operand of an \<open>assign_t\<close> has the static type
  \<open>variable_t\<close>. The constructors take any \<open>operation_t\<close>.
\<close>

datatype variable_t = variable_t (m_id: nat)

datatype node_t =
    unary_t operation_t node_t
  | binary_t operation_t node_t node_t
  | variable_node variable_t
  | assign_t operation_t variable_t node_t
  | constant_t double

section \<open>The symbol table\<close>

datatype error = DivisionByZero | NoReturn | OutOfRange

text \<open>
  \<open>DivisionByZero\<close> is the \<open>std::logic_error{"division by zero"}\<close> thrown by the evaluator.
  The other two are undefined behaviour of the C++ source, kept apart here: \<open>NoReturn\<close>
  is control flowing off the end of a value-returning \<open>visit\<close> because no \<open>case\<close> of its
  \<open>switch\<close> matched, \<open>OutOfRange\<close> is \<open>operator[]\<close> of a vector at an index that is not
  below its size.
\<close>

record symbol_table_t =
  m_names :: "string list"
  m_state :: state_t

definition empty_table :: symbol_table_t where
  \<comment> \<open>\<open>symbol_table_t{}\<close>\<close>
  "empty_table = \<lparr>m_names = [], m_state = []\<rparr>"

definition variable :: "string \<Rightarrow> double \<Rightarrow> symbol_table_t \<Rightarrow> variable_t \<times> symbol_table_t" where
  "variable name init st =
     (let i = length (m_state st)
      in (variable_t i, st\<lparr>m_names := m_names st @ [name], m_state := m_state st @ [init]\<rparr>))"

definition name :: "symbol_table_t \<Rightarrow> nat \<Rightarrow> error + string" where
  "name st i = (if i < length (m_names st) then Inr (m_names st ! i) else Inl OutOfRange)"

section \<open>The evaluator\<close>

text \<open>
  What the source leaves to the machine and the compiler: the four rounded operations on
  doubles, and the order in which the two operands of \<open>visit(first) + visit(second)\<close>
  (and of \<open>-\<close>, \<open>*\<close>) are evaluated, which C++ does not fix. \<open>left_first\<close> tells, for a
  binary node, whether its first operand is evaluated first.
\<close>

record target =
  fadd :: "double \<Rightarrow> double \<Rightarrow> double"
  fsub :: "double \<Rightarrow> double \<Rightarrow> double"
  fmul :: "double \<Rightarrow> double \<Rightarrow> double"
  fdiv :: "double \<Rightarrow> double \<Rightarrow> double"
  left_first :: "node_t \<Rightarrow> bool"

fun arith :: "target \<Rightarrow> operation_t \<Rightarrow> double \<Rightarrow> double \<Rightarrow> double" where
  "arith T assign_op first second = second"
| "arith T plus_op first second = fadd T first second"
| "arith T minus_op first second = fsub T first second"
| "arith T mul_op first second = fmul T first second"
| "arith T div_op first second = fdiv T first second"

text \<open>
  \<open>eval_visitor_t::visit\<close>. The visitor holds a reference to the state; the model takes
  the state and returns it with the result. A thrown exception leaves the state as it
  was when it was thrown, so the state is returned beside an error as well.
\<close>

fun eval_visit :: "target \<Rightarrow> node_t \<Rightarrow> state_t \<Rightarrow> (error + double) \<times> state_t" where
  "eval_visit T (unary_t op x) s =
     (case op of
        plus_op \<Rightarrow> eval_visit T x s
      | minus_op \<Rightarrow>
          (case eval_visit T x s of
             (Inl e, s1) \<Rightarrow> (Inl e, s1)
           | (Inr v, s1) \<Rightarrow> (Inr (fneg v), s1))
      | _ \<Rightarrow> (Inl NoReturn, s))"
| "eval_visit T (binary_t op l r) s =
     (case op of
        div_op \<Rightarrow>
          (case eval_visit T r s of
             (Inl e, s1) \<Rightarrow> (Inl e, s1)
           | (Inr second, s1) \<Rightarrow>
               if feq second (Number 0) then (Inl DivisionByZero, s1)
               else (case eval_visit T l s1 of
                       (Inl e, s2) \<Rightarrow> (Inl e, s2)
                     | (Inr first, s2) \<Rightarrow> (Inr (fdiv T first second), s2)))
      | assign_op \<Rightarrow> (Inl NoReturn, s)
      | _ \<Rightarrow>
          if left_first T (binary_t op l r) then
            (case eval_visit T l s of
               (Inl e, s1) \<Rightarrow> (Inl e, s1)
             | (Inr first, s1) \<Rightarrow>
                 (case eval_visit T r s1 of
                    (Inl e, s2) \<Rightarrow> (Inl e, s2)
                  | (Inr second, s2) \<Rightarrow> (Inr (arith T op first second), s2)))
          else
            (case eval_visit T r s of
               (Inl e, s1) \<Rightarrow> (Inl e, s1)
             | (Inr second, s1) \<Rightarrow>
                 (case eval_visit T l s1 of
                    (Inl e, s2) \<Rightarrow> (Inl e, s2)
                  | (Inr first, s2) \<Rightarrow> (Inr (arith T op first second), s2))))"
| "eval_visit T (variable_node node) s =
     (if m_id node < length s then (Inr (s ! m_id node), s) else (Inl OutOfRange, s))"
| "eval_visit T (assign_t op first x) s =
     (case eval_visit T x s of
        (Inl e, s1) \<Rightarrow> (Inl e, s1)
      | (Inr val, s1) \<Rightarrow>
          if m_id first < length s1 then
            (let var = arith T op (s1 ! m_id first) val
             in (Inr var, s1[m_id first := var]))
          else (Inl OutOfRange, s1))"
| "eval_visit T (constant_t v) s = (Inr v, s)"

section \<open>The printer\<close>

text \<open>
  \<open>print_visitor::visit\<close> writes to the stream \<open>m_out\<close>; the model takes the text written
  so far and returns it extended. \<open>fmt\<close> is the text the stream writes for a double
  (\<open>m_out << node.m_value\<close>), which depends on the stream's formatting flags. A \<open>switch\<close>
  none of whose cases matches writes nothing.
\<close>

fun print_visit :: "(double \<Rightarrow> string) \<Rightarrow> symbol_table_t \<Rightarrow> node_t \<Rightarrow> string \<Rightarrow> error + string" where
  "print_visit fmt st (unary_t op x) out =
     print_visit fmt st x
       (case op of
          plus_op \<Rightarrow> out
        | minus_op \<Rightarrow> out @ ''-''
        | _ \<Rightarrow> out)"
| "print_visit fmt st (binary_t op l r) out =
     (case print_visit fmt st l out of
        Inl e \<Rightarrow> Inl e
      | Inr out1 \<Rightarrow>
          print_visit fmt st r
            (case op of
               plus_op \<Rightarrow> out1 @ ''+''
             | minus_op \<Rightarrow> out1 @ ''-''
             | mul_op \<Rightarrow> out1 @ ''*''
             | div_op \<Rightarrow> out1 @ ''/''
             | assign_op \<Rightarrow> out1))"
| "print_visit fmt st (variable_node node) out =
     (case name st (m_id node) of
        Inl e \<Rightarrow> Inl e
      | Inr n \<Rightarrow> Inr (out @ n))"
| "print_visit fmt st (assign_t op first x) out =
     (case print_visit fmt st (variable_node first) out of
        Inl e \<Rightarrow> Inl e
      | Inr out1 \<Rightarrow>
          print_visit fmt st x
            (case op of
               assign_op \<Rightarrow> out1 @ ''<<=''
             | plus_op \<Rightarrow> out1 @ ''+=''
             | minus_op \<Rightarrow> out1 @ ''-=''
             | mul_op \<Rightarrow> out1 @ ''*=''
             | div_op \<Rightarrow> out1 @ ''/=''))"
| "print_visit fmt st (constant_t v) out = Inr (out @ fmt v)"

definition printer :: "(double \<Rightarrow> string) \<Rightarrow> symbol_table_t \<Rightarrow> node_t \<Rightarrow> string \<Rightarrow> error + string" where
  \<comment> \<open>\<open>out << printer{symbol_table, node}\<close>\<close>
  "printer fmt st node out = print_visit fmt st node out"

section \<open>The builder operators\<close>

text \<open>
  The overloads that take a \<open>constant_t\<close> on one side build the same node as the general
  template; a bare number converts to \<open>constant_t\<close> at the call.
\<close>

definition operator_plus :: "node_t \<Rightarrow> node_t \<Rightarrow> node_t" where
  "operator_plus first second = binary_t plus_op first second"

definition operator_minus :: "node_t \<Rightarrow> node_t \<Rightarrow> node_t" where
  "operator_minus first second = binary_t minus_op first second"

definition operator_mul :: "node_t \<Rightarrow> node_t \<Rightarrow> node_t" where
  "operator_mul first second = binary_t mul_op first second"

definition operator_div :: "node_t \<Rightarrow> node_t \<Rightarrow> node_t" where
  "operator_div first second = binary_t div_op first second"

definition operator_unary_plus :: "node_t \<Rightarrow> node_t" where
  "operator_unary_plus node = unary_t plus_op node"

definition operator_unary_minus :: "node_t \<Rightarrow> node_t" where
  "operator_unary_minus node = unary_t minus_op node"

definition operator_shl_assign :: "variable_t \<Rightarrow> node_t \<Rightarrow> node_t" where
  \<comment> \<open>\<open>first <<= second\<close>\<close>
  "operator_shl_assign first second = assign_t assign_op first second"

definition operator_plus_assign :: "variable_t \<Rightarrow> node_t \<Rightarrow> node_t" where
  "operator_plus_assign first second = assign_t plus_op first second"

definition operator_minus_assign :: "variable_t \<Rightarrow> node_t \<Rightarrow> node_t" where
  "operator_minus_assign first second = assign_t minus_op first second"

definition operator_mul_assign :: "variable_t \<Rightarrow> node_t \<Rightarrow> node_t" where
  "operator_mul_assign first second = assign_t mul_op first second"

definition operator_div_assign :: "variable_t \<Rightarrow> node_t \<Rightarrow> node_t" where
  "operator_div_assign first second = assign_t div_op first second"

text \<open>The trees that the operators build from variables and constants.\<close>

inductive built :: "node_t \<Rightarrow> bool" where
  built_variable: "built (variable_node v)"
| built_constant: "built (constant_t c)"
| built_unary_plus: "built a \<Longrightarrow> built (operator_unary_plus a)"
| built_unary_minus: "built a \<Longrightarrow> built (operator_unary_minus a)"
| built_plus: "built a \<Longrightarrow> built b \<Longrightarrow> built (operator_plus a b)"
| built_minus: "built a \<Longrightarrow> built b \<Longrightarrow> built (operator_minus a b)"
| built_mul: "built a \<Longrightarrow> built b \<Longrightarrow> built (operator_mul a b)"
| built_div: "built a \<Longrightarrow> built b \<Longrightarrow> built (operator_div a b)"
| built_shl_assign: "built b \<Longrightarrow> built (operator_shl_assign v b)"
| built_plus_assign: "built b \<Longrightarrow> built (operator_plus_assign v b)"
| built_minus_assign: "built b \<Longrightarrow> built (operator_minus_assign v b)"
| built_mul_assign: "built b \<Longrightarrow> built (operator_mul_assign v b)"
| built_div_assign: "built b \<Longrightarrow> built (operator_div_assign v b)"

section \<open>Properties of trees\<close>

fun assign_free :: "node_t \<Rightarrow> bool" where
  \<comment> \<open>the tree contains no \<open>assign_t\<close> node\<close>
  "assign_free (unary_t op x) = assign_free x"
| "assign_free (binary_t op l r) = (assign_free l \<and> assign_free r)"
| "assign_free (variable_node v) = True"
| "assign_free (assign_t op v x) = False"
| "assign_free (constant_t c) = True"

fun handled :: "node_t \<Rightarrow> bool" where
  \<comment> \<open>every node carries a tag for which the \<open>switch\<close> of the evaluator has a case\<close>
  "handled (unary_t op x) = ((op = plus_op \<or> op = minus_op) \<and> handled x)"
| "handled (binary_t op l r) = (op \<noteq> assign_op \<and> handled l \<and> handled r)"
| "handled (variable_node v) = True"
| "handled (assign_t op v x) = handled x"
| "handled (constant_t c) = True"

fun ids_below :: "nat \<Rightarrow> node_t \<Rightarrow> bool" where
  \<comment> \<open>every variable of the tree has an id below \<open>n\<close>\<close>
  "ids_below n (unary_t op x) = ids_below n x"
| "ids_below n (binary_t op l r) = (ids_below n l \<and> ids_below n r)"
| "ids_below n (variable_node v) = (m_id v < n)"
| "ids_below n (assign_t op v x) = (m_id v < n \<and> ids_below n x)"
| "ids_below n (constant_t c) = True"

section \<open>The words of the specification\<close>

text \<open>
  "First evaluating l, then evaluating r in the environment left by l, then applying op",
  where applying a division to a right-hand value equal to zero is the error; and the
  same with the operands taken in the other order.
\<close>

definition apply_op :: "target \<Rightarrow> operation_t \<Rightarrow> double \<Rightarrow> double \<Rightarrow> error + double" where
  "apply_op T op a b =
     (if op = div_op \<and> feq b (Number 0) then Inl DivisionByZero else Inr (arith T op a b))"

definition left_then_right ::
  "target \<Rightarrow> operation_t \<Rightarrow> node_t \<Rightarrow> node_t \<Rightarrow> state_t \<Rightarrow> (error + double) \<times> state_t" where
  "left_then_right T op l r s =
     (case eval_visit T l s of
        (Inl e, s1) \<Rightarrow> (Inl e, s1)
      | (Inr a, s1) \<Rightarrow>
          (case eval_visit T r s1 of
             (Inl e, s2) \<Rightarrow> (Inl e, s2)
           | (Inr b, s2) \<Rightarrow> (apply_op T op a b, s2)))"

definition right_then_left ::
  "target \<Rightarrow> operation_t \<Rightarrow> node_t \<Rightarrow> node_t \<Rightarrow> state_t \<Rightarrow> (error + double) \<times> state_t" where
  "right_then_left T op l r s =
     (case eval_visit T r s of
        (Inl e, s1) \<Rightarrow> (Inl e, s1)
      | (Inr b, s1) \<Rightarrow>
          (case eval_visit T l s1 of
             (Inl e, s2) \<Rightarrow> (Inl e, s2)
           | (Inr a, s2) \<Rightarrow> (apply_op T op a b, s2)))"

text \<open>
  The division as the source has it: the divisor first, its test against zero before the
  dividend is evaluated at all.
\<close>

definition divisor_then_dividend ::
  "target \<Rightarrow> node_t \<Rightarrow> node_t \<Rightarrow> state_t \<Rightarrow> (error + double) \<times> state_t" where
  "divisor_then_dividend T l r s =
     (case eval_visit T r s of
        (Inl e, s1) \<Rightarrow> (Inl e, s1)
      | (Inr b, s1) \<Rightarrow>
          if feq b (Number 0) then (Inl DivisionByZero, s1)
          else (case eval_visit T l s1 of
                  (Inl e, s2) \<Rightarrow> (Inl e, s2)
                | (Inr a, s2) \<Rightarrow> (Inr (fdiv T a b), s2)))"

text \<open>
  The rendering as section 4.3 of the specification words it. It gives a symbol to the
  four arithmetic tags of a Binary node and to the two signs of a Unary node only, and
  reads a name with \<open>name_of\<close>, whose precondition is that the id is below the length.
\<close>

fun op_symbol :: "operation_t \<Rightarrow> string" where
  "op_symbol plus_op = ''+''"
| "op_symbol minus_op = ''-''"
| "op_symbol mul_op = ''*''"
| "op_symbol div_op = ''/''"

fun assign_symbol :: "operation_t \<Rightarrow> string" where
  "assign_symbol assign_op = ''<<=''"
| "assign_symbol plus_op = ''+=''"
| "assign_symbol minus_op = ''-=''"
| "assign_symbol mul_op = ''*=''"
| "assign_symbol div_op = ''/=''"

fun render :: "(double \<Rightarrow> string) \<Rightarrow> string list \<Rightarrow> node_t \<Rightarrow> string" where
  "render fmt names (constant_t v) = fmt v"
| "render fmt names (variable_node v) = names ! m_id v"
| "render fmt names (unary_t plus_op x) = render fmt names x"
| "render fmt names (unary_t minus_op x) = ''-'' @ render fmt names x"
| "render fmt names (binary_t op l r) = render fmt names l @ op_symbol op @ render fmt names r"
| "render fmt names (assign_t op v x) = names ! m_id v @ assign_symbol op @ render fmt names x"

section \<open>Evaluation contexts\<close>

text \<open>
  A tree with one hole, to speak about a node inside a larger tree. \<open>reaches T C n s\<close> is
  the state in which the evaluation of \<open>plug C n\<close>, started in \<open>s\<close>, begins to evaluate
  the node \<open>n\<close> in the hole; it is \<open>None\<close> when the evaluation ends before it gets there.
\<close>

datatype context_t =
    Hole
  | In_unary operation_t context_t
  | In_first operation_t context_t node_t
  | In_second operation_t node_t context_t
  | In_assign operation_t variable_t context_t

fun plug :: "context_t \<Rightarrow> node_t \<Rightarrow> node_t" where
  "plug Hole n = n"
| "plug (In_unary op C) n = unary_t op (plug C n)"
| "plug (In_first op C r) n = binary_t op (plug C n) r"
| "plug (In_second op l C) n = binary_t op l (plug C n)"
| "plug (In_assign op v C) n = assign_t op v (plug C n)"

definition first_goes_first :: "target \<Rightarrow> node_t \<Rightarrow> bool" where
  \<comment> \<open>for a binary node with one of the four arithmetic tags\<close>
  "first_goes_first T n =
     (case n of binary_t op l r \<Rightarrow> op \<noteq> div_op \<and> left_first T n | _ \<Rightarrow> False)"

fun reaches :: "target \<Rightarrow> context_t \<Rightarrow> node_t \<Rightarrow> state_t \<Rightarrow> state_t option" where
  "reaches T Hole n s = Some s"
| "reaches T (In_unary op C) n s =
     (if op = plus_op \<or> op = minus_op then reaches T C n s else None)"
| "reaches T (In_first op C r) n s =
     (if op = assign_op then None
      else if first_goes_first T (binary_t op (plug C n) r) then reaches T C n s
      else (case eval_visit T r s of
              (Inl e, s1) \<Rightarrow> None
            | (Inr b, s1) \<Rightarrow>
                if op = div_op \<and> feq b (Number 0) then None else reaches T C n s1))"
| "reaches T (In_second op l C) n s =
     (if op = assign_op then None
      else if first_goes_first T (binary_t op l (plug C n)) then
        (case eval_visit T l s of
           (Inl e, s1) \<Rightarrow> None
         | (Inr a, s1) \<Rightarrow> reaches T C n s1)
      else reaches T C n s)"
| "reaches T (In_assign op v C) n s = reaches T C n s"

section \<open>A target and a table to run the model on\<close>

text \<open>
  Arithmetic without rounding, with the conventions of binary64 for the zeros, the
  infinities and NaN. A correctly rounding machine returns the same result whenever that
  result is a binary64 number, as it is in every example below. The operands of \<open>+\<close>,
  \<open>-\<close> and \<open>*\<close> are taken from left to right.
\<close>

fun negative :: "double \<Rightarrow> bool" where
  "negative (Number q) = (q < 0)"
| "negative NegZero = True"
| "negative NegInf = True"
| "negative PosInf = False"
| "negative NaN = False"

fun magnitude :: "double \<Rightarrow> rat" where
  "magnitude (Number q) = \<bar>q\<bar>"
| "magnitude d = 0"

definition is_inf :: "double \<Rightarrow> bool" where
  "is_inf d \<longleftrightarrow> d = PosInf \<or> d = NegInf"

definition is_zero :: "double \<Rightarrow> bool" where
  "is_zero d \<longleftrightarrow> d = Number 0 \<or> d = NegZero"

definition signed :: "bool \<Rightarrow> rat \<Rightarrow> double" where
  "signed neg m = (if neg then (if m = 0 then NegZero else Number (- m)) else Number m)"

definition signed_inf :: "bool \<Rightarrow> double" where
  "signed_inf neg = (if neg then NegInf else PosInf)"

definition exact_add :: "double \<Rightarrow> double \<Rightarrow> double" where
  "exact_add a b =
     (if a = NaN \<or> b = NaN then NaN
      else if is_inf a \<and> is_inf b then (if a = b then a else NaN)
      else if is_inf a then a
      else if is_inf b then b
      else if a = NegZero \<and> b = NegZero then NegZero
      else signed False
             ((if negative a then - magnitude a else magnitude a)
              + (if negative b then - magnitude b else magnitude b)))"

definition exact_sub :: "double \<Rightarrow> double \<Rightarrow> double" where
  "exact_sub a b = exact_add a (fneg b)"

definition exact_mul :: "double \<Rightarrow> double \<Rightarrow> double" where
  "exact_mul a b =
     (if a = NaN \<or> b = NaN then NaN
      else if (is_inf a \<and> is_zero b) \<or> (is_zero a \<and> is_inf b) then NaN
      else if is_inf a \<or> is_inf b then signed_inf (negative a \<noteq> negative b)
      else signed (negative a \<noteq> negative b) (magnitude a * magnitude b))"

definition exact_div :: "double \<Rightarrow> double \<Rightarrow> double" where
  "exact_div a b =
     (if a = NaN \<or> b = NaN then NaN
      else if (is_inf a \<and> is_inf b) \<or> (is_zero a \<and> is_zero b) then NaN
      else if is_inf a \<or> is_zero b then signed_inf (negative a \<noteq> negative b)
      else if is_inf b then signed (negative a \<noteq> negative b) 0
      else signed (negative a \<noteq> negative b) (magnitude a / magnitude b))"

definition exact :: target where
  "exact = \<lparr>fadd = exact_add, fsub = exact_sub, fmul = exact_mul, fdiv = exact_div,
             left_first = (\<lambda>n. True)\<rparr>"

text \<open>
  What a stream with its default flags writes for the whole numbers from 0 to 9; the
  examples print no other constant, and every other value is written here as \<open>?\<close>.
\<close>

definition plain_format :: "double \<Rightarrow> string" where
  "plain_format d =
     (case d of
        Number q \<Rightarrow>
          (if of_int \<lfloor>q\<rfloor> = q \<and> 0 \<le> q \<and> q < 10 then [''0123456789'' ! nat \<lfloor>q\<rfloor>] else ''?'')
      | _ \<Rightarrow> ''?'')"

text \<open>The table of the test case \<open>Calculate\<close>: \<open>a = 2\<close>, \<open>b = 3\<close>, \<open>c = 0\<close>.\<close>

definition sys_a :: "variable_t \<times> symbol_table_t" where
  "sys_a = variable ''a'' (Number 2) empty_table"

definition sys_b :: "variable_t \<times> symbol_table_t" where
  "sys_b = variable ''b'' (Number 3) (snd sys_a)"

definition sys_c :: "variable_t \<times> symbol_table_t" where
  "sys_c = variable ''c'' (Number 0) (snd sys_b)"

definition sys :: symbol_table_t where
  "sys = snd sys_c"

definition var_a :: variable_t where
  "var_a = fst sys_a"

definition var_b :: variable_t where
  "var_b = fst sys_b"

definition var_c :: variable_t where
  "var_c = fst sys_c"

section \<open>Unfolding and general facts\<close>

lemmas operator_defs =
  operator_plus_def operator_minus_def operator_mul_def operator_div_def
  operator_unary_plus_def operator_unary_minus_def
  operator_shl_assign_def operator_plus_assign_def operator_minus_assign_def
  operator_mul_assign_def operator_div_assign_def

lemmas exact_defs =
  exact_def exact_add_def exact_sub_def exact_mul_def exact_div_def
  signed_def signed_inf_def is_inf_def is_zero_def feq_def Let_def

lemmas sys_defs =
  sys_def sys_a_def sys_b_def sys_c_def var_a_def var_b_def var_c_def variable_def empty_table_def

text \<open>Evaluation never changes the number of slots, and changes no slot without an \<open>assign_t\<close>.\<close>

lemma eval_visit_length: "length (snd (eval_visit T n s)) = length s"
proof (induction n arbitrary: s)
  case (unary_t op x)
  have x: "length s' = length s" if "eval_visit T x s = (res, s')" for s res s'
    using unary_t.IH [of s] that by simp
  show ?case
    by (cases op) (auto split: prod.split sum.split simp: unary_t.IH dest!: x)
next
  case (binary_t op l r)
  have l: "length s' = length s" if "eval_visit T l s = (res, s')" for s res s'
    using binary_t.IH(1) [of s] that by simp
  have r: "length s' = length s" if "eval_visit T r s = (res, s')" for s res s'
    using binary_t.IH(2) [of s] that by simp
  show ?case
    by (cases op) (auto split: prod.split sum.split dest!: l r)
next
  case (assign_t op v x)
  have x: "length s' = length s" if "eval_visit T x s = (res, s')" for s res s'
    using assign_t.IH [of s] that by simp
  show ?case by (auto split: prod.split sum.split simp: Let_def dest!: x)
qed auto

lemma eval_visit_frame: "assign_free n \<Longrightarrow> snd (eval_visit T n s) = s"
proof (induction n arbitrary: s)
  case (unary_t op x)
  have x: "s' = s" if "eval_visit T x s = (res, s')" for s res s'
    using unary_t.IH [of s] unary_t.prems that by simp
  show ?case
    using unary_t by (cases op) (auto split: prod.split sum.split dest!: x)
next
  case (binary_t op l r)
  have l: "s' = s" if "eval_visit T l s = (res, s')" for s res s'
    using binary_t.IH(1) [of s] binary_t.prems that by simp
  have r: "s' = s" if "eval_visit T r s = (res, s')" for s res s'
    using binary_t.IH(2) [of s] binary_t.prems that by simp
  show ?case
    by (cases op) (auto split: prod.split sum.split dest!: l r)
qed auto

text \<open>The operators mint only tags that the evaluator has a case for.\<close>

lemma built_handled: "built n \<Longrightarrow> handled n"
  by (induction rule: built.induct) (simp_all add: operator_defs)

lemma built_iff_handled [code]: "built n \<longleftrightarrow> handled n"
proof
  show "handled n \<Longrightarrow> built n"
  proof (induction n)
    case (unary_t op x)
    then show ?case
      using built_unary_plus [of x] built_unary_minus [of x] by (auto simp: operator_defs)
  next
    case (binary_t op l r)
    then show ?case
      using built_plus [of l r] built_minus [of l r] built_mul [of l r] built_div [of l r]
      by (cases op) (auto simp: operator_defs)
  next
    case (assign_t op v x)
    then show ?case
      using built_shl_assign [of x v] built_plus_assign [of x v] built_minus_assign [of x v]
        built_mul_assign [of x v] built_div_assign [of x v]
      by (cases op) (auto simp: operator_defs)
  qed (auto intro: built.intros)
qed (rule built_handled)

lemma handled_returns: "handled n \<Longrightarrow> fst (eval_visit T n s) \<noteq> Inl NoReturn"
proof (induction n arbitrary: s)
  case (unary_t op x)
  have x: "res \<noteq> Inl NoReturn" if "eval_visit T x s = (res, s')" for s res s'
    using unary_t.IH [of s] unary_t.prems that by simp
  show ?case
    using unary_t.prems by (cases op) (auto split: prod.split sum.split simp: unary_t.IH dest!: x)
next
  case (binary_t op l r)
  have l: "res \<noteq> Inl NoReturn" if "eval_visit T l s = (res, s')" for s res s'
    using binary_t.IH(1) [of s] binary_t.prems that by simp
  have r: "res \<noteq> Inl NoReturn" if "eval_visit T r s = (res, s')" for s res s'
    using binary_t.IH(2) [of s] binary_t.prems that by simp
  show ?case
    using binary_t.prems by (cases op) (auto split: prod.split sum.split dest!: l r)
next
  case (assign_t op v x)
  have x: "res \<noteq> Inl NoReturn" if "eval_visit T x s = (res, s')" for s res s'
    using assign_t.IH [of s] assign_t.prems that by simp
  show ?case by (auto split: prod.split sum.split simp: Let_def dest!: x)
qed auto

text \<open>An error raised at the hole of a context is the outcome of the whole tree.\<close>

lemma abort_in_context:
  "reaches T C n s = Some s1 \<Longrightarrow> eval_visit T n s1 = (Inl e, s2) \<Longrightarrow>
   eval_visit T (plug C n) s = (Inl e, s2)"
proof (induction C arbitrary: s)
  case Hole
  then show ?case by simp
next
  case (In_unary op C)
  then show ?case by (cases op) (auto split: if_splits)
next
  case (In_first op C r)
  then show ?case
    by (cases op) (auto simp: first_goes_first_def split: if_splits prod.splits sum.splits)
next
  case (In_second op l C)
  then show ?case
    by (cases op) (auto simp: first_goes_first_def split: if_splits prod.splits sum.splits)
next
  case (In_assign op v C)
  then show ?case by simp
qed

text \<open>The printer only appends, and on the tags of the specification it writes \<open>render\<close>.\<close>

lemma print_visit_appends:
  "ids_below (length (m_names st)) n \<Longrightarrow> \<exists>t. print_visit fmt st n out = Inr (out @ t)"
proof (induction n arbitrary: out)
  case (unary_t op x)
  have "\<exists>t. print_visit fmt st x (out @ pre) = Inr (out @ pre @ t)" for pre
    using unary_t.IH [of "out @ pre"] unary_t.prems by simp
  from this [of "''-''"] this [of "[]"] show ?case
    by (cases op) auto
next
  case (binary_t op l r)
  from binary_t obtain t1 where l: "print_visit fmt st l out = Inr (out @ t1)"
    by fastforce
  have "\<exists>t. print_visit fmt st r (out @ t1 @ sym) = Inr (out @ t1 @ sym @ t)" for sym
    using binary_t.IH(2) [of "out @ t1 @ sym"] binary_t.prems by simp
  from this [of "''+''"] this [of "''-''"] this [of "''*''"] this [of "''/''"] this [of "[]"]
  show ?case
    by (cases op) (auto simp: l)
next
  case (variable_node v)
  then show ?case by (simp add: name_def)
next
  case (assign_t op v x)
  let ?n = "m_names st ! m_id v"
  have "\<exists>t. print_visit fmt st x (out @ ?n @ sym) = Inr (out @ ?n @ sym @ t)" for sym
    using assign_t.IH [of "out @ ?n @ sym"] assign_t.prems by simp
  from this [of "''<<=''"] this [of "''+=''"] this [of "''-=''"] this [of "''*=''"] this [of "''/=''"]
  show ?case
    using assign_t.prems by (cases op) (auto simp: name_def)
next
  case (constant_t c)
  then show ?case by simp
qed

lemma print_visit_render:
  "ids_below (length (m_names st)) n \<Longrightarrow> handled n \<Longrightarrow>
   print_visit fmt st n out = Inr (out @ render fmt (m_names st) n)"
proof (induction n arbitrary: out)
  case (unary_t op x)
  then show ?case by (cases op) (auto)
next
  case (binary_t op l r)
  then show ?case by (cases op) (auto)
next
  case (variable_node v)
  then show ?case by (simp add: name_def)
next
  case (assign_t op v x)
  then show ?case by (cases op) (auto simp: name_def)
next
  case (constant_t c)
  then show ?case by simp
qed

section \<open>The test cases of the repository\<close>

text \<open>
  The checks of \<open>test.cpp\<close>, run on the model with exact arithmetic. \<open>(-c)(state) == 0\<close>
  holds with the negative zero as the result.
\<close>

lemma test_reading:
  "eval_visit exact (variable_node var_a) (m_state sys) = (Inr (Number 2), m_state sys)"
  "eval_visit exact (variable_node var_b) (m_state sys) = (Inr (Number 3), m_state sys)"
  "eval_visit exact (variable_node var_c) (m_state sys) = (Inr (Number 0), m_state sys)"
  by (simp_all add: sys_defs)

lemma test_unary:
  "eval_visit exact (operator_unary_plus (variable_node var_a)) (m_state sys)
     = (Inr (Number 2), m_state sys)"
  "eval_visit exact (operator_unary_minus (variable_node var_b)) (m_state sys)
     = (Inr (Number (- 3)), m_state sys)"
  "eval_visit exact (operator_unary_minus (variable_node var_c)) (m_state sys)
     = (Inr NegZero, m_state sys)"
  "feq NegZero (Number 0)"
  by (simp_all add: operator_defs sys_defs feq_def)

lemma test_arithmetic:
  "eval_visit exact (operator_plus (variable_node var_a) (variable_node var_b)) (m_state sys)
     = (Inr (Number 5), m_state sys)"
  "eval_visit exact (operator_minus (variable_node var_a) (variable_node var_b)) (m_state sys)
     = (Inr (Number (- 1)), m_state sys)"
  "eval_visit exact (operator_minus (variable_node var_a)
       (operator_minus (variable_node var_b) (variable_node var_c))) (m_state sys)
     = (Inr (Number (- 1)), m_state sys)"
  "eval_visit exact (operator_minus (variable_node var_a)
       (operator_minus (variable_node var_b) (variable_node var_a))) (m_state sys)
     = (Inr (Number 1), m_state sys)"
  "eval_visit exact (operator_mul (variable_node var_a) (variable_node var_b)) (m_state sys)
     = (Inr (Number 6), m_state sys)"
  "eval_visit exact (operator_div (variable_node var_a) (variable_node var_b)) (m_state sys)
     = (Inr (fdiv exact (Number 2) (Number 3)), m_state sys)"
  "eval_visit exact (operator_div (variable_node var_a) (variable_node var_c)) (m_state sys)
     = (Inl DivisionByZero, m_state sys)"
  "eval_visit exact (operator_plus (variable_node var_a)
       (operator_mul (variable_node var_a) (variable_node var_b))) (m_state sys)
     = (Inr (Number 8), m_state sys)"
  "eval_visit exact (operator_minus (variable_node var_a)
       (operator_div (variable_node var_b) (variable_node var_a))) (m_state sys)
     = (Inr (Number (1 / 2)), m_state sys)"
  "eval_visit exact (operator_plus (constant_t (Number 7)) (variable_node var_a)) (m_state sys)
     = (Inr (Number 9), m_state sys)"
  "eval_visit exact (operator_minus (variable_node var_a) (constant_t (Number 7))) (m_state sys)
     = (Inr (Number (- 5)), m_state sys)"
  by (simp_all add: operator_defs sys_defs exact_defs)

lemma test_assignment:
  "eval_visit exact
     (operator_shl_assign var_c (operator_minus (variable_node var_b) (variable_node var_a)))
     [Number 2, Number 3, Number 0] = (Inr (Number 1), [Number 2, Number 3, Number 1])"
  "eval_visit exact
     (operator_plus_assign var_c
        (operator_minus (variable_node var_b)
           (operator_mul (variable_node var_a) (variable_node var_c))))
     [Number 2, Number 3, Number 1] = (Inr (Number 2), [Number 2, Number 3, Number 2])"
  "eval_visit exact
     (operator_plus_assign var_c
        (operator_minus (variable_node var_b)
           (operator_mul (variable_node var_a) (variable_node var_c))))
     [Number 2, Number 3, Number 2] = (Inr (Number 1), [Number 2, Number 3, Number 1])"
  by (simp_all add: operator_defs sys_defs exact_defs)

lemma test_lazy:
  "eval_visit exact
     (operator_mul (operator_plus (variable_node var_a) (variable_node var_b)) (variable_node var_c))
     [Number 2, Number 3, Number 0] = (Inr (Number 0), [Number 2, Number 3, Number 0])"
  "eval_visit exact (operator_shl_assign var_c (constant_t (Number 4)))
     [Number 2, Number 3, Number 0] = (Inr (Number 4), [Number 2, Number 3, Number 4])"
  "eval_visit exact
     (operator_mul (operator_plus (variable_node var_a) (variable_node var_b)) (variable_node var_c))
     [Number 2, Number 3, Number 4] = (Inr (Number 20), [Number 2, Number 3, Number 4])"
  by (simp_all add: operator_defs sys_defs exact_defs)

lemma test_constants:
  "eval_visit exact (operator_plus (constant_t (Number 2)) (constant_t (Number 4))) s
     = (Inr (Number 6), s)"
  "eval_visit exact (operator_minus (constant_t (Number 2)) (constant_t (Number 4))) s
     = (Inr (Number (- 2)), s)"
  "eval_visit exact (operator_mul (constant_t (Number 2)) (constant_t (Number 4))) s
     = (Inr (Number 8), s)"
  "eval_visit exact (operator_div (constant_t (Number 2)) (constant_t (Number 4))) s
     = (Inr (Number (1 / 2)), s)"
  "eval_visit exact
     (operator_unary_minus (operator_plus (constant_t (Number 2)) (constant_t (Number 4)))) s
     = (Inr (Number (- 6)), s)"
  by (simp_all add: operator_defs exact_defs)

section \<open>Compound division-assignment\<close>

text \<open>
  Claim C1: a division-assignment whose right-hand side evaluates to exactly 0.0 is said to
  fail with DivisionByZero, as the binary division does. The source divides without the
  test: on the state \<open>[2]\<close>, \<open>v /= 0\<close> returns the quotient \<open>2 / 0\<close>, an infinity, and stores
  it in the slot, where \<open>v / 0\<close> throws.
\<close>

theorem assign_div_zero_unchecked:
  "eval_visit T (operator_div_assign (variable_t 0) (constant_t (Number 0))) [Number 2]
     = (Inr (fdiv T (Number 2) (Number 0)), [fdiv T (Number 2) (Number 0)])
   \<and> eval_visit exact (operator_div_assign (variable_t 0) (constant_t (Number 0))) [Number 2]
     = (Inr PosInf, [PosInf])
   \<and> eval_visit exact (operator_div (variable_node (variable_t 0)) (constant_t (Number 0))) [Number 2]
     = (Inl DivisionByZero, [Number 2])"
  by (simp add: operator_defs exact_defs)

section \<open>The order of the operands of a binary node\<close>

text \<open>
  Claim C2, as amended: for \<open>+\<close>, \<open>-\<close> and \<open>*\<close> the operands are evaluated in the order the
  compiler chose for the node; taken from left to right, the result and the final state
  are those of evaluating \<open>l\<close>, then \<open>r\<close> in the state left by \<open>l\<close>, then applying the
  operation, and symmetrically from right to left. The division always evaluates its right
  operand first: an error of \<open>r\<close>, or a value of \<open>r\<close> equal to zero, ends the evaluation
  in the state left by \<open>r\<close> before \<open>l\<close> is looked at; otherwise \<open>l\<close> is evaluated in the
  state left by \<open>r\<close> and the quotient is returned.
\<close>

theorem binary_operand_order:
  "(op = plus_op \<or> op = minus_op \<or> op = mul_op \<longrightarrow>
      eval_visit T (binary_t op l r) s =
        (if left_first T (binary_t op l r) then left_then_right T op l r s
         else right_then_left T op l r s))
   \<and> eval_visit T (binary_t div_op l r) s = divisor_then_dividend T l r s"
  by (cases op)
     (auto simp: left_then_right_def right_then_left_def divisor_then_dividend_def apply_op_def
           split: prod.splits sum.splits)

theorem binary_operand_order_witness:
  "(plus_op = plus_op \<or> plus_op = minus_op \<or> plus_op = mul_op)
   \<and> left_first exact
         (binary_t plus_op (assign_t assign_op (variable_t 0) (constant_t (Number 4)))
            (variable_node (variable_t 0)))
   \<and> eval_visit exact
       (binary_t plus_op (assign_t assign_op (variable_t 0) (constant_t (Number 4)))
          (variable_node (variable_t 0))) [Number 2]
     = left_then_right exact plus_op
         (assign_t assign_op (variable_t 0) (constant_t (Number 4)))
         (variable_node (variable_t 0)) [Number 2]
   \<and> left_then_right exact plus_op
        (assign_t assign_op (variable_t 0) (constant_t (Number 4)))
        (variable_node (variable_t 0)) [Number 2]
     = (Inr (Number 8), [Number 4])
   \<and> eval_visit exact
       (binary_t div_op (assign_t assign_op (variable_t 0) (constant_t (Number 4)))
          (variable_node (variable_t 0))) [Number 2]
     = divisor_then_dividend exact (assign_t assign_op (variable_t 0) (constant_t (Number 4)))
         (variable_node (variable_t 0)) [Number 2]
   \<and> divisor_then_dividend exact (assign_t assign_op (variable_t 0) (constant_t (Number 4)))
         (variable_node (variable_t 0)) [Number 2]
     = (Inr (Number 2), [Number 4])
   \<and> \<not> left_first (exact\<lparr>left_first := \<lambda>n. False\<rparr>)
         (binary_t plus_op (assign_t assign_op (variable_t 0) (constant_t (Number 4)))
            (variable_node (variable_t 0)))
   \<and> eval_visit (exact\<lparr>left_first := \<lambda>n. False\<rparr>)
       (binary_t plus_op (assign_t assign_op (variable_t 0) (constant_t (Number 4)))
          (variable_node (variable_t 0))) [Number 2]
     = right_then_left (exact\<lparr>left_first := \<lambda>n. False\<rparr>) plus_op
         (assign_t assign_op (variable_t 0) (constant_t (Number 4)))
         (variable_node (variable_t 0)) [Number 2]
   \<and> right_then_left (exact\<lparr>left_first := \<lambda>n. False\<rparr>) plus_op
        (assign_t assign_op (variable_t 0) (constant_t (Number 4)))
        (variable_node (variable_t 0)) [Number 2]
     = (Inr (Number 6), [Number 4])"
  using binary_operand_order
    [of plus_op exact "assign_t assign_op (variable_t 0) (constant_t (Number 4))"
        "variable_node (variable_t 0)" "[Number 2]"]
    binary_operand_order
    [of plus_op "exact\<lparr>left_first := \<lambda>n. False\<rparr>"
        "assign_t assign_op (variable_t 0) (constant_t (Number 4))"
        "variable_node (variable_t 0)" "[Number 2]"]
  by (simp add: left_then_right_def right_then_left_def divisor_then_dividend_def apply_op_def
        exact_defs)

text \<open>
  The claim as it stands, left before right for every operation, fails for the division:
  in \<open>v / (v <<= 4)\<close> on the state \<open>[2]\<close> the source reads \<open>v\<close> after the assignment and
  returns \<open>4 / 4\<close>, where left before right gives \<open>2 / 4\<close>.
\<close>

theorem binary_div_order_counterexample:
  "eval_visit exact
     (binary_t div_op (variable_node (variable_t 0))
        (assign_t assign_op (variable_t 0) (constant_t (Number 4)))) [Number 2]
     = (Inr (Number 1), [Number 4])
   \<and> left_then_right exact div_op (variable_node (variable_t 0))
        (assign_t assign_op (variable_t 0) (constant_t (Number 4))) [Number 2]
     = (Inr (Number (1 / 2)), [Number 4])
   \<and> eval_visit exact
     (binary_t div_op (variable_node (variable_t 0))
        (assign_t assign_op (variable_t 0) (constant_t (Number 4)))) [Number 2]
     \<noteq> left_then_right exact div_op (variable_node (variable_t 0))
        (assign_t assign_op (variable_t 0) (constant_t (Number 4))) [Number 2]"
  by (simp add: left_then_right_def apply_op_def exact_defs)

section \<open>Division by zero\<close>

text \<open>
  Claim C3: a binary division whose right operand evaluates to a value equal to 0.0 fails
  with DivisionByZero instead of returning a quotient, and wherever the division stands
  in a tree, the whole evaluation ends with that error in the state the division left:
  no operation around it is applied, no slot is written after it.
\<close>

theorem division_by_zero_aborts:
  assumes "reaches T C (binary_t div_op l r) s = Some s1"
    and "eval_visit T r s1 = (Inr v, s2)"
    and "feq v (Number 0)"
  shows "eval_visit T (operator_div l r) s1 = (Inl DivisionByZero, s2)
         \<and> eval_visit T (plug C (operator_div l r)) s = (Inl DivisionByZero, s2)"
proof -
  from assms(2,3) have "eval_visit T (binary_t div_op l r) s1 = (Inl DivisionByZero, s2)"
    by simp
  with assms(1) show ?thesis
    by (simp add: operator_div_def abort_in_context)
qed

text \<open>
  In \<open>b += (a <<= 7) + b / c\<close> on the table of the test case, where \<open>c\<close> is 0, the inner
  assignment has been made when the division fails, the outer one has not.
\<close>

theorem division_by_zero_aborts_witness:
  "reaches exact
     (In_assign plus_op var_b
        (In_second plus_op (operator_shl_assign var_a (constant_t (Number 7))) Hole))
     (binary_t div_op (variable_node var_b) (variable_node var_c)) (m_state sys)
     = Some [Number 7, Number 3, Number 0]
   \<and> eval_visit exact (variable_node var_c) [Number 7, Number 3, Number 0]
     = (Inr (Number 0), [Number 7, Number 3, Number 0])
   \<and> feq (Number 0) (Number 0)
   \<and> eval_visit exact
       (operator_plus_assign var_b
          (operator_plus (operator_shl_assign var_a (constant_t (Number 7)))
             (operator_div (variable_node var_b) (variable_node var_c))))
       (m_state sys)
     = (Inl DivisionByZero, [Number 7, Number 3, Number 0])"
proof -
  have 1: "reaches exact
     (In_assign plus_op var_b
        (In_second plus_op (operator_shl_assign var_a (constant_t (Number 7))) Hole))
     (binary_t div_op (variable_node var_b) (variable_node var_c)) (m_state sys)
     = Some [Number 7, Number 3, Number 0]"
    by (simp add: operator_defs sys_defs exact_defs first_goes_first_def)
  have 2: "eval_visit exact (variable_node var_c) [Number 7, Number 3, Number 0]
     = (Inr (Number 0), [Number 7, Number 3, Number 0])"
    by (simp add: sys_defs)
  have 3: "feq (Number 0) (Number 0)"
    by (simp add: feq_def)
  from division_by_zero_aborts [OF 1 2 3] 1 2 3 show ?thesis
    by (simp add: operator_defs)
qed

section \<open>Trees without assignment\<close>

text \<open>
  Claim C4: evaluating a tree that contains no Assign node leaves every slot of the
  environment as it was, whatever the outcome.
\<close>

theorem assign_free_state_unchanged:
  "assign_free n \<Longrightarrow> snd (eval_visit T n s) = s"
  by (rule eval_visit_frame)

theorem assign_free_state_unchanged_witness:
  "assign_free (operator_mul (operator_plus (variable_node var_a) (variable_node var_b))
       (operator_unary_minus (variable_node var_c)))
   \<and> snd (eval_visit exact
        (operator_mul (operator_plus (variable_node var_a) (variable_node var_b))
           (operator_unary_minus (variable_node var_c))) (m_state sys)) = m_state sys
   \<and> fst (eval_visit exact
        (operator_mul (operator_plus (variable_node var_a) (variable_node var_b))
           (operator_unary_minus (variable_node var_c))) (m_state sys)) = Inr NegZero"
  using assign_free_state_unchanged
    [of "operator_mul (operator_plus (variable_node var_a) (variable_node var_b))
           (operator_unary_minus (variable_node var_c))" exact "m_state sys"]
  by (simp add: operator_defs sys_defs exact_defs)

section \<open>Assignment\<close>

text \<open>
  Claim C5, as amended: an Assign node first evaluates its value, then reads the slot of
  its target in the environment that this evaluation left, combines the slot with the
  value according to the tag (overwrite for \<open><<=\<close>), stores the result and returns it.
  So \<open>v += e\<close> leaves in the slot, and returns, the sum of the slot as it is after \<open>e\<close>
  has been evaluated and of the value of \<open>e\<close>, and likewise for \<open>-=\<close>, \<open>*=\<close>, \<open>/=\<close>; the
  slot is the old one whenever \<open>e\<close> contains no Assign node.
\<close>

theorem assign_read_modify_write:
  assumes "eval_visit T e s = (Inr x, s1)" and "m_id v < length s1"
  shows "eval_visit T (assign_t op v e) s
           = (Inr (arith T op (s1 ! m_id v) x), s1[m_id v := arith T op (s1 ! m_id v) x])
         \<and> eval_visit T (operator_shl_assign v e) s = (Inr x, s1[m_id v := x])
         \<and> eval_visit T (operator_plus_assign v e) s
           = (Inr (fadd T (s1 ! m_id v) x), s1[m_id v := fadd T (s1 ! m_id v) x])
         \<and> eval_visit T (operator_minus_assign v e) s
           = (Inr (fsub T (s1 ! m_id v) x), s1[m_id v := fsub T (s1 ! m_id v) x])
         \<and> eval_visit T (operator_mul_assign v e) s
           = (Inr (fmul T (s1 ! m_id v) x), s1[m_id v := fmul T (s1 ! m_id v) x])
         \<and> eval_visit T (operator_div_assign v e) s
           = (Inr (fdiv T (s1 ! m_id v) x), s1[m_id v := fdiv T (s1 ! m_id v) x])
         \<and> (assign_free e \<longrightarrow> s1 = s)"
  using assms eval_visit_frame [of e T s] by (simp add: operator_defs Let_def)

text \<open>The second \<open>c += b - a * c\<close> of the test case, on \<open>a = 2\<close>, \<open>b = 3\<close>, \<open>c = 1\<close>.\<close>

theorem assign_read_modify_write_witness:
  "eval_visit exact
     (operator_minus (variable_node var_b) (operator_mul (variable_node var_a) (variable_node var_c)))
     [Number 2, Number 3, Number 1] = (Inr (Number 1), [Number 2, Number 3, Number 1])
   \<and> m_id var_c < length [Number 2, Number 3, Number (1::rat)]
   \<and> assign_free
       (operator_minus (variable_node var_b) (operator_mul (variable_node var_a) (variable_node var_c)))
   \<and> eval_visit exact
       (operator_plus_assign var_c
          (operator_minus (variable_node var_b)
             (operator_mul (variable_node var_a) (variable_node var_c))))
       [Number 2, Number 3, Number 1] = (Inr (Number 2), [Number 2, Number 3, Number 2])"
proof -
  have 1: "eval_visit exact
     (operator_minus (variable_node var_b) (operator_mul (variable_node var_a) (variable_node var_c)))
     [Number 2, Number 3, Number 1] = (Inr (Number 1), [Number 2, Number 3, Number 1])"
    by (simp add: operator_defs sys_defs exact_defs)
  have 2: "m_id var_c < length [Number 2, Number 3, Number (1::rat)]"
    by (simp add: sys_defs)
  from assign_read_modify_write [OF 1 2, of plus_op] 1 2 show ?thesis
    by (simp add: operator_defs sys_defs exact_defs)
qed

text \<open>
  With the slot as it was before the call the statement fails: \<open>v += (v <<= 5)\<close> on the
  state \<open>[2]\<close> returns \<open>5 + 5\<close>, not \<open>2 + 5\<close>.
\<close>

theorem compound_assign_old_value_counterexample:
  "fst (eval_visit exact (operator_shl_assign (variable_t 0) (constant_t (Number 5))) [Number 2])
     = Inr (Number 5)
   \<and> fadd exact ([Number 2] ! 0) (Number 5) = Number 7
   \<and> eval_visit exact
       (operator_plus_assign (variable_t 0)
          (operator_shl_assign (variable_t 0) (constant_t (Number 5)))) [Number 2]
     = (Inr (Number 10), [Number 10])
   \<and> fst (eval_visit exact
       (operator_plus_assign (variable_t 0)
          (operator_shl_assign (variable_t 0) (constant_t (Number 5)))) [Number 2])
     \<noteq> Inr (fadd exact ([Number 2] ! 0) (Number 5))"
  by (simp add: operator_defs exact_defs)

section \<open>The laws of the builder operators\<close>

text \<open>
  Claim C6, as amended: for trees \<open>a\<close> and \<open>b\<close> that contain no Assign node and evaluate
  to values in an environment, \<open>a + b\<close> evaluates there to the sum of the two values and
  leaves the environment as it was; likewise \<open>-\<close> and \<open>*\<close>, and \<open>/\<close> when the value of
  the divisor is not equal to zero. This holds in whichever order the operands are taken.
\<close>

theorem operator_laws_assign_free:
  assumes "assign_free a" and "assign_free b"
    and "fst (eval_visit T a s) = Inr va" and "fst (eval_visit T b s) = Inr vb"
  shows "eval_visit T (operator_plus a b) s = (Inr (fadd T va vb), s)
         \<and> eval_visit T (operator_minus a b) s = (Inr (fsub T va vb), s)
         \<and> eval_visit T (operator_mul a b) s = (Inr (fmul T va vb), s)
         \<and> (\<not> feq vb (Number 0) \<longrightarrow> eval_visit T (operator_div a b) s = (Inr (fdiv T va vb), s))"
proof -
  have a: "eval_visit T a s = (Inr va, s)"
    using assms(1,3) eval_visit_frame [of a T s] by (cases "eval_visit T a s") simp
  have b: "eval_visit T b s = (Inr vb, s)"
    using assms(2,4) eval_visit_frame [of b T s] by (cases "eval_visit T b s") simp
  show ?thesis
    by (simp add: operator_defs a b)
qed

theorem operator_laws_assign_free_witness:
  "assign_free (variable_node var_a) \<and> assign_free (operator_unary_minus (variable_node var_b))
   \<and> fst (eval_visit exact (variable_node var_a) (m_state sys)) = Inr (Number 2)
   \<and> fst (eval_visit exact (operator_unary_minus (variable_node var_b)) (m_state sys)) = Inr (Number (- 3))
   \<and> \<not> feq (Number (- 3)) (Number 0)
   \<and> eval_visit exact
       (operator_plus (variable_node var_a) (operator_unary_minus (variable_node var_b))) (m_state sys)
     = (Inr (Number (- 1)), m_state sys)
   \<and> eval_visit exact
       (operator_minus (variable_node var_a) (operator_unary_minus (variable_node var_b))) (m_state sys)
     = (Inr (Number 5), m_state sys)
   \<and> eval_visit exact
       (operator_mul (variable_node var_a) (operator_unary_minus (variable_node var_b))) (m_state sys)
     = (Inr (Number (- 6)), m_state sys)
   \<and> eval_visit exact
       (operator_div (variable_node var_a) (operator_unary_minus (variable_node var_b))) (m_state sys)
     = (Inr (Number (- (2 / 3))), m_state sys)"
proof -
  have 1: "assign_free (variable_node var_a)"
    and 2: "assign_free (operator_unary_minus (variable_node var_b))"
    by (simp_all add: operator_defs)
  have 3: "fst (eval_visit exact (variable_node var_a) (m_state sys)) = Inr (Number 2)"
    and 4: "fst (eval_visit exact (operator_unary_minus (variable_node var_b)) (m_state sys))
              = Inr (Number (- 3))"
    by (simp_all add: operator_defs sys_defs)
  have 5: "\<not> feq (Number (- 3)) (Number 0)"
    by (simp add: feq_def)
  from operator_laws_assign_free [OF 1 2 3 4] 1 2 3 4 5 show ?thesis
    by (simp add: exact_defs)
qed

text \<open>
  For all trees the law fails: on the state \<open>[2]\<close>, \<open>v\<close> evaluates to 2 and \<open>v <<= 4\<close>
  to 4, which is not zero, but \<open>v / (v <<= 4)\<close> evaluates to 1 and not to \<open>2 / 4\<close>.
\<close>

theorem operator_law_counterexample:
  "fst (eval_visit exact (variable_node (variable_t 0)) [Number 2]) = Inr (Number 2)
   \<and> fst (eval_visit exact (operator_shl_assign (variable_t 0) (constant_t (Number 4))) [Number 2])
     = Inr (Number 4)
   \<and> \<not> feq (Number 4) (Number 0)
   \<and> fdiv exact (Number 2) (Number 4) = Number (1 / 2)
   \<and> fst (eval_visit exact
       (operator_div (variable_node (variable_t 0))
          (operator_shl_assign (variable_t 0) (constant_t (Number 4)))) [Number 2])
     = Inr (Number 1)
   \<and> fst (eval_visit exact
       (operator_div (variable_node (variable_t 0))
          (operator_shl_assign (variable_t 0) (constant_t (Number 4)))) [Number 2])
     \<noteq> Inr (fdiv exact (Number 2) (Number 4))"
  by (simp add: operator_defs exact_defs)

section \<open>Registering a variable\<close>

text \<open>
  Claim C7: the names and the environment of a symbol table have the same length, in the
  empty table and after every operation: \<open>variable\<close> appends the name and the initial
  value, and an evaluation changes no length. \<open>variable\<close> returns the variable whose id is
  the next index; right after, that variable evaluates to the initial value and its name
  is the one stored.
\<close>

theorem variable_registers:
  assumes "length (m_names st) = length (m_state st)"
    and "variable nm init st = (v, st')"
  shows "length (m_names st') = length (m_state st')
         \<and> m_names st' = m_names st @ [nm]
         \<and> m_state st' = m_state st @ [init]
         \<and> m_id v = length (m_state st)
         \<and> eval_visit T (variable_node v) (m_state st') = (Inr init, m_state st')
         \<and> name st' (m_id v) = Inr nm
         \<and> length (m_names empty_table) = length (m_state empty_table)
         \<and> length (snd (eval_visit T n (m_state st))) = length (m_names st)"
  using assms by (auto simp: variable_def Let_def name_def empty_table_def eval_visit_length nth_append)

theorem variable_registers_witness:
  "length (m_names (snd sys_b)) = length (m_state (snd sys_b))
   \<and> variable ''c'' (Number 0) (snd sys_b) = (var_c, sys)
   \<and> m_names sys = [''a'', ''b'', ''c'']
   \<and> m_state sys = [Number 2, Number 3, Number 0]
   \<and> m_id var_c = 2
   \<and> eval_visit exact (variable_node var_c) (m_state sys) = (Inr (Number 0), m_state sys)
   \<and> name sys (m_id var_c) = Inr ''c''"
proof -
  have 1: "length (m_names (snd sys_b)) = length (m_state (snd sys_b))"
    by (simp add: sys_defs)
  have 2: "variable ''c'' (Number 0) (snd sys_b) = (var_c, sys)"
    by (simp add: sys_def var_c_def sys_c_def)
  from variable_registers [OF 1 2, of exact "constant_t (Number 0)"] 1 2 show ?thesis
    by (simp add: sys_defs)
qed

section \<open>Rendering\<close>

text \<open>
  Claim C8: printing a tree whose variables belong to the table never fails and only
  appends to the stream; the table is an argument that is not returned, so nothing of it
  changes. On the tags of the specification the text appended is the flat infix
  rendering \<open>render\<close>: a unary plus writes its operand alone, a unary minus writes \<open>-\<close>
  before it, a binary node writes left, symbol, right without parentheses, an assignment
  writes the name of its target, its symbol and the value. On the table of the test case
  \<open>a + b\<close>, \<open>a += b\<close>, \<open>a <<= b\<close> and \<open>a + 2\<close> are written as \<open>a+b\<close>, \<open>a+=b\<close>, \<open>a<<=b\<close> and
  \<open>a+2\<close>, the last on a stream that writes the number two as \<open>2\<close>.
\<close>

theorem print_visit_renders:
  "(ids_below (length (m_names st)) n \<longrightarrow> (\<exists>t. printer fmt st n out = Inr (out @ t)))
   \<and> (ids_below (length (m_names st)) n \<and> handled n \<longrightarrow>
        printer fmt st n out = Inr (out @ render fmt (m_names st) n))
   \<and> printer fmt sys (operator_plus (variable_node var_a) (variable_node var_b)) [] = Inr ''a+b''
   \<and> printer fmt sys (operator_plus_assign var_a (variable_node var_b)) [] = Inr ''a+=b''
   \<and> printer fmt sys (operator_shl_assign var_a (variable_node var_b)) [] = Inr ''a<<=b''
   \<and> (fmt (Number 2) = ''2'' \<longrightarrow>
        printer fmt sys (operator_plus (variable_node var_a) (constant_t (Number 2))) [] = Inr ''a+2'')"
proof -
  have "printer fmt sys (operator_plus (variable_node var_a) (variable_node var_b)) [] = Inr ''a+b''"
    by (simp add: printer_def operator_defs sys_defs name_def)
  moreover
  have "printer fmt sys (operator_plus_assign var_a (variable_node var_b)) [] = Inr ''a+=b''"
    by (simp add: printer_def operator_defs sys_defs name_def)
  moreover
  have "printer fmt sys (operator_shl_assign var_a (variable_node var_b)) [] = Inr ''a<<=b''"
    by (simp add: printer_def operator_defs sys_defs name_def)
  moreover
  have "fmt (Number 2) = ''2'' \<longrightarrow>
        printer fmt sys (operator_plus (variable_node var_a) (constant_t (Number 2))) [] = Inr ''a+2''"
    by (simp add: printer_def operator_defs sys_defs name_def)
  ultimately show ?thesis
    using print_visit_appends [of st n fmt out] print_visit_render [of st n fmt out]
    by (simp add: printer_def)
qed

theorem print_visit_renders_witness:
  "ids_below (length (m_names sys))
     (operator_div_assign var_c
        (operator_mul (operator_unary_minus (variable_node var_a))
           (operator_minus (variable_node var_b) (constant_t (Number 2)))))
   \<and> handled
     (operator_div_assign var_c
        (operator_mul (operator_unary_minus (variable_node var_a))
           (operator_minus (variable_node var_b) (constant_t (Number 2)))))
   \<and> plain_format (Number 2) = ''2''
   \<and> printer plain_format sys
       (operator_div_assign var_c
          (operator_mul (operator_unary_minus (variable_node var_a))
             (operator_minus (variable_node var_b) (constant_t (Number 2))))) []
     = Inr ''c/=-a*b-2''
   \<and> printer plain_format sys (operator_plus (variable_node var_a) (constant_t (Number 2))) []
     = Inr ''a+2''"
  using print_visit_renders
    [of sys "operator_div_assign var_c
        (operator_mul (operator_unary_minus (variable_node var_a))
           (operator_minus (variable_node var_b) (constant_t (Number 2))))" plain_format "[]"]
  by (simp add: operator_defs sys_defs plain_format_def)

section \<open>The test against zero\<close>

text \<open>
  Claim C9: the division compares the value of its right operand with zero by \<open>==\<close>,
  without tolerance: the negative zero raises DivisionByZero as the positive one does,
  and for every other value, however small, the quotient is returned.
\<close>

theorem division_zero_test_exact:
  "(eval_visit T r s = (Inr NegZero, s1) \<longrightarrow>
      eval_visit T (operator_div l r) s = (Inl DivisionByZero, s1))
   \<and> (eval_visit T r s = (Inr (Number 0), s1) \<longrightarrow>
      eval_visit T (operator_div l r) s = (Inl DivisionByZero, s1))
   \<and> (eval_visit T r s = (Inr v, s1) \<and> v \<noteq> Number 0 \<and> v \<noteq> NegZero
        \<and> eval_visit T l s1 = (Inr u, s2) \<longrightarrow>
      eval_visit T (operator_div l r) s = (Inr (fdiv T u v), s2))"
  by (cases v) (auto simp: operator_defs feq_def)

theorem division_zero_test_exact_witness:
  "eval_visit exact (operator_unary_minus (variable_node var_c)) (m_state sys)
     = (Inr NegZero, m_state sys)
   \<and> eval_visit exact
       (operator_div (variable_node var_a) (operator_unary_minus (variable_node var_c))) (m_state sys)
     = (Inl DivisionByZero, m_state sys)
   \<and> eval_visit exact (variable_node var_c) (m_state sys) = (Inr (Number 0), m_state sys)
   \<and> eval_visit exact (operator_div (variable_node var_a) (variable_node var_c)) (m_state sys)
     = (Inl DivisionByZero, m_state sys)
   \<and> eval_visit exact (constant_t (Number (1 / 2 ^ 1074))) (m_state sys)
     = (Inr (Number (1 / 2 ^ 1074)), m_state sys)
   \<and> Number (1 / 2 ^ 1074) \<noteq> Number 0 \<and> Number (1 / 2 ^ 1074) \<noteq> NegZero
   \<and> eval_visit exact (variable_node var_c) (m_state sys) = (Inr (Number 0), m_state sys)
   \<and> eval_visit exact
       (operator_div (variable_node var_c) (constant_t (Number (1 / 2 ^ 1074)))) (m_state sys)
     = (Inr (fdiv exact (Number 0) (Number (1 / 2 ^ 1074))), m_state sys)"
  using division_zero_test_exact
    [of exact "operator_unary_minus (variable_node var_c)" "m_state sys" "m_state sys"
        "variable_node var_a"]
    division_zero_test_exact
    [of exact "variable_node var_c" "m_state sys" "m_state sys" "variable_node var_a"]
    division_zero_test_exact
    [of exact "constant_t (Number (1 / 2 ^ 1074))" "m_state sys" "m_state sys"
        "variable_node var_c" "Number (1 / 2 ^ 1074)" "Number 0" "m_state sys"]
  by (simp add: operator_defs sys_defs)

section \<open>Tags without a case\<close>

text \<open>
  Claim C10: a node can be constructed with any tag, and the evaluation of a unary node
  whose tag is neither plus nor minus, or of a binary node tagged assign, runs off the
  end of \<open>visit\<close>. The operators \<open>+a\<close> and \<open>-a\<close> build unary nodes tagged plus and minus,
  every tree built by the operators carries only tags with a case, and its evaluation
  never runs off the end.
\<close>

theorem built_trees_return:
  "(op \<noteq> plus_op \<and> op \<noteq> minus_op \<longrightarrow> eval_visit T (unary_t op x) s = (Inl NoReturn, s))
   \<and> eval_visit T (binary_t assign_op l r) s = (Inl NoReturn, s)
   \<and> operator_unary_plus x = unary_t plus_op x
   \<and> operator_unary_minus x = unary_t minus_op x
   \<and> (built n \<longrightarrow> handled n \<and> fst (eval_visit T n s) \<noteq> Inl NoReturn)"
  using built_handled [of n] handled_returns [of n T s]
  by (cases op) (auto simp: operator_defs)

theorem built_trees_return_witness:
  "mul_op \<noteq> plus_op \<and> mul_op \<noteq> minus_op
   \<and> eval_visit exact (unary_t mul_op (variable_node var_a)) (m_state sys)
     = (Inl NoReturn, m_state sys)
   \<and> built (operator_plus_assign var_c
       (operator_unary_minus (operator_div (variable_node var_a) (constant_t (Number 4)))))
   \<and> handled (operator_plus_assign var_c
       (operator_unary_minus (operator_div (variable_node var_a) (constant_t (Number 4)))))
   \<and> eval_visit exact (operator_plus_assign var_c
       (operator_unary_minus (operator_div (variable_node var_a) (constant_t (Number 4)))))
       (m_state sys)
     = (Inr (Number (- (1 / 2))), [Number 2, Number 3, Number (- (1 / 2))])"
proof -
  have 1: "built (operator_plus_assign var_c
       (operator_unary_minus (operator_div (variable_node var_a) (constant_t (Number 4)))))"
    by (intro built.intros)
  from built_trees_return
    [of mul_op exact "variable_node var_a" "m_state sys" "variable_node var_a" "variable_node var_a"
        "operator_plus_assign var_c
       (operator_unary_minus (operator_div (variable_node var_a) (constant_t (Number 4))))"] 1
  show ?thesis
    by (simp add: operator_defs sys_defs exact_defs)
qed

end
